theory Spec2Isabelle
  imports Complex_Main
begin

section \<open>Data model of app.py\<close>

text \<open>
  Python strings are modelled as \<^typ>\<open>string\<close> holding the UTF-8 bytes of the text, so the
  Chinese literals of the source appear as byte lists; the code points are given beside
  each constant.

  A trading day is a day number. An entry of a numeric column is a double: a number
  (a rational; the sign of zero is not distinguished), one of the two infinities, or NaN,
  which is \<open>None\<close>.
\<close>

type_synonym date = nat

datatype float64 = Val rat | PosInf | NegInf

type_synonym price = "float64 option"

text \<open>The order of the doubles that are not NaN.\<close>

fun f64_less :: "float64 \<Rightarrow> float64 \<Rightarrow> bool" where
  "f64_less (Val a) (Val b) = (a < b)"
| "f64_less (Val a) PosInf = True"
| "f64_less NegInf (Val b) = True"
| "f64_less NegInf PosInf = True"
| "f64_less _ _ = False"

text \<open>
  A row of the frame returned by \<open>yf.download\<close>: its date in the index, its entry in the
  column \<open>Close\<close>, and its entries in the other columns of the download (open, high, low,
  volume and so on), which the code never names but which \<open>dropna\<close> inspects.
\<close>

record raw_row =
  trade_date :: date
  Close :: price
  other_columns :: "price list"

type_synonym raw_frame = "raw_row list"

text \<open>The call \<open>yf.download(ticker, start, end)\<close> either raises or returns a frame.\<close>

datatype download_outcome = DownloadRaises | Downloaded raw_frame

text \<open>A row of the frame after lines 29 to 31 of app.py.\<close>

record row =
  Date :: date
  Current_Price :: price
  MA_Short :: price
  MA_Long :: price
  Other_Columns :: "price list"

text \<open>The Python values that \<open>fetch_and_analyze\<close> puts into the tuple it returns.\<close>

datatype pyval = PyNone | PyStr string | PyFrame "row list"

datatype py_error = ValueError | TypeError | IndexError | KeyError

text \<open>
  \<open>Series.rolling(window=w).mean()\<close> is code of the pandas library, not of this program.
  It computes in double precision with a running sum, so that what it returns for a row
  depends on rounding and on whether the sum has overflowed. It is a parameter of the
  model: a function from the window size and the column to the column of averages.
  Every theorem below holds for each such function.
\<close>

type_synonym rolling_lib = "nat \<Rightarrow> price list \<Rightarrow> price list"

subsection \<open>String literals of app.py\<close>

text \<open>U+7121 U+6CD5 U+7372 U+53D6 U+80A1 U+50F9 U+6578 U+64DA U+3002 (line 24)\<close>

definition msg_no_data :: string where
  "msg_no_data =
    [CHR 0xE7, CHR 0x84, CHR 0xA1, CHR 0xE6, CHR 0xB3, CHR 0x95, CHR 0xE7, CHR 0x8D, CHR 0xB2,
     CHR 0xE5, CHR 0x8F, CHR 0x96, CHR 0xE8, CHR 0x82, CHR 0xA1, CHR 0xE5, CHR 0x83, CHR 0xB9,
     CHR 0xE6, CHR 0x95, CHR 0xB8, CHR 0xE6, CHR 0x93, CHR 0x9A, CHR 0xE3, CHR 0x80, CHR 0x82]"

text \<open>
  U+6578 U+64DA U+6293 U+53D6 U+5931 U+6557 U+FF0C U+8ACB U+6AA2 U+67E5 U+4EE3 U+78BC U+6216
  U+7DB2 U+8DEF U+3002 (line 26)
\<close>

definition msg_fetch_failed :: string where
  "msg_fetch_failed =
    [CHR 0xE6, CHR 0x95, CHR 0xB8, CHR 0xE6, CHR 0x93, CHR 0x9A, CHR 0xE6, CHR 0x8A, CHR 0x93,
     CHR 0xE5, CHR 0x8F, CHR 0x96, CHR 0xE5, CHR 0xA4, CHR 0xB1, CHR 0xE6, CHR 0x95, CHR 0x97,
     CHR 0xEF, CHR 0xBC, CHR 0x8C, CHR 0xE8, CHR 0xAB, CHR 0x8B, CHR 0xE6, CHR 0xAA, CHR 0xA2,
     CHR 0xE6, CHR 0x9F, CHR 0xA5, CHR 0xE4, CHR 0xBB, CHR 0xA3, CHR 0xE7, CHR 0xA2, CHR 0xBC,
     CHR 0xE6, CHR 0x88, CHR 0x96, CHR 0xE7, CHR 0xB6, CHR 0xB2, CHR 0xE8, CHR 0xB7, CHR 0xAF,
     CHR 0xE3, CHR 0x80, CHR 0x82]"

text \<open>The initial value of \<open>quant_trend\<close> (line 34).\<close>

definition trend_na :: string where
  "trend_na = ''N/A''"

text \<open>U+6578 U+64DA U+4E0D U+8DB3 U+FF0C U+7121 U+6CD5 U+8A08 U+7B97 U+3002 (line 35)\<close>

definition desc_insufficient :: string where
  "desc_insufficient =
    [CHR 0xE6, CHR 0x95, CHR 0xB8, CHR 0xE6, CHR 0x93, CHR 0x9A, CHR 0xE4, CHR 0xB8, CHR 0x8D,
     CHR 0xE8, CHR 0xB6, CHR 0xB3, CHR 0xEF, CHR 0xBC, CHR 0x8C, CHR 0xE7, CHR 0x84, CHR 0xA1,
     CHR 0xE6, CHR 0xB3, CHR 0x95, CHR 0xE8, CHR 0xA8, CHR 0x88, CHR 0xE7, CHR 0xAE, CHR 0x97,
     CHR 0xE3, CHR 0x80, CHR 0x82]"

text \<open>U+770B U+6F32, the bullish signal (line 40)\<close>

definition trend_bullish :: string where
  "trend_bullish = [CHR 0xE7, CHR 0x9C, CHR 0x8B, CHR 0xE6, CHR 0xBC, CHR 0xB2]"

text \<open>U+770B U+8DCC / U+76E4 U+6574, the bearish or consolidating signal (line 40)\<close>

definition trend_bearish :: string where
  "trend_bearish =
    [CHR 0xE7, CHR 0x9C, CHR 0x8B, CHR 0xE8, CHR 0xB7, CHR 0x8C] @ ''/'' @
    [CHR 0xE7, CHR 0x9B, CHR 0xA4, CHR 0xE6, CHR 0x95, CHR 0xB4]"

text \<open>
  U+77ED U+671F (5 U+65E5 ) vs U+9577 U+671F (20 U+65E5 ) U+5747 U+7DDA U+8DA8 U+52E2 U+3002
  (line 41)
\<close>

definition desc_ma :: string where
  "desc_ma =
    [CHR 0xE7, CHR 0x9F, CHR 0xAD, CHR 0xE6, CHR 0x9C, CHR 0x9F] @ '' (5'' @
    [CHR 0xE6, CHR 0x97, CHR 0xA5] @ '') vs '' @
    [CHR 0xE9, CHR 0x95, CHR 0xB7, CHR 0xE6, CHR 0x9C, CHR 0x9F] @ '' (20'' @
    [CHR 0xE6, CHR 0x97, CHR 0xA5] @ '') '' @
    [CHR 0xE5, CHR 0x9D, CHR 0x87, CHR 0xE7, CHR 0xB7, CHR 0x9A, CHR 0xE8, CHR 0xB6, CHR 0xA8,
     CHR 0xE5, CHR 0x8B, CHR 0xA2, CHR 0xE3, CHR 0x80, CHR 0x82]"

section \<open>fetch\_and\_analyze\<close>

text \<open>The entry of a column at a row; a row that the column does not have reads as NaN.\<close>

definition entry :: "price list \<Rightarrow> nat \<Rightarrow> price" where
  "entry ys i = (if i < length ys then ys ! i else None)"

text \<open>
  \<open>Series.rolling(window=w).mean()\<close> as the program sees it. The result is aligned with
  the column, one entry per row. The default \<open>min_periods\<close> of a fixed window is the window
  size, so the entry is NaN while fewer than \<open>w\<close> rows end at it. Every other entry is
  the one that the library computed.
\<close>

definition rolling_mean :: "rolling_lib \<Rightarrow> nat \<Rightarrow> price list \<Rightarrow> price list" where
  "rolling_mean lib w xs =
     map (\<lambda>i. if i + 1 < w then None else entry (lib w xs) i) [0..<length xs]"

text \<open>
  Lines 29 to 31: the date index becomes the column \<open>Date\<close>, \<open>Close\<close> is renamed to
  \<open>Current_Price\<close>, and the two rolling means are added as columns. A column is joined to
  the frame row by row. The other columns stay as they are.
\<close>

definition add_moving_averages :: "rolling_lib \<Rightarrow> raw_frame \<Rightarrow> row list" where
  "add_moving_averages lib raw =
     (let current_price = map Close raw;
          ma_short = rolling_mean lib 5 current_price;
          ma_long = rolling_mean lib 20 current_price
      in map (\<lambda>(r, s, l).
                \<lparr>Date = trade_date r, Current_Price = Close r, MA_Short = s, MA_Long = l,
                 Other_Columns = other_columns r\<rparr>)
           (zip raw (zip ma_short ma_long)))"

text \<open>
  \<open>DataFrame.dropna()\<close> keeps the rows that have no NaN in any column. An infinity is
  not NaN.
\<close>

definition notna_row :: "row \<Rightarrow> bool" where
  "notna_row r \<longleftrightarrow>
     Current_Price r \<noteq> None \<and> MA_Short r \<noteq> None \<and> MA_Long r \<noteq> None \<and>
     list_all (\<lambda>v. v \<noteq> None) (Other_Columns r)"

definition dropna :: "row list \<Rightarrow> row list" where
  "dropna df = filter notna_row df"

text \<open>Python's \<open>a > b\<close> on floats: a comparison with NaN is false.\<close>

fun py_gt :: "price \<Rightarrow> price \<Rightarrow> bool" where
  "py_gt (Some a) (Some b) = f64_less b a"
| "py_gt _ _ = False"

text \<open>
  \<open>fetch_and_analyze(ticker, days)\<close>. The ticker and the window reach the result only
  through the call of \<open>yf.download\<close>, whose outcome is the argument here; the decorator
  of line 15 only memoises the result. The returned Python tuple is the list of its
  components: two on the failure paths (lines 24 and 26), three at line 43.
\<close>

definition fetch_and_analyze :: "rolling_lib \<Rightarrow> download_outcome \<Rightarrow> pyval list" where
  "fetch_and_analyze lib dl =
     (case dl of
        DownloadRaises \<Rightarrow> [PyNone, PyStr msg_fetch_failed]
      | Downloaded raw \<Rightarrow>
          if raw = [] then [PyNone, PyStr msg_no_data]
          else
            let df = add_moving_averages lib raw;
                analyzed_df = dropna df
            in if analyzed_df \<noteq> [] then
                 let latest_short_ma = MA_Short (last analyzed_df);
                     latest_long_ma = MA_Long (last analyzed_df);
                     quant_trend =
                       (if py_gt latest_short_ma latest_long_ma then trend_bullish
                        else trend_bearish)
                 in [PyFrame df, PyStr quant_trend, PyStr desc_ma]
               else [PyFrame df, PyStr trend_na, PyStr desc_insufficient])"

section \<open>Data model of api\_service.py\<close>

text \<open>
  A value of \<open>MOCK_AI_DATABASE\<close>: a dictionary with the four keys \<open>emotion\<close>,
  \<open>conclusion\<close>, \<open>positive_news\<close> and \<open>negative_news\<close>.
\<close>

record analysis_entry =
  entry_emotion :: string
  entry_conclusion :: string
  entry_positive_news :: "string list"
  entry_negative_news :: "string list"

text \<open>The response model \<open>AIAnalysisResponse\<close>, fields in the order of the class.\<close>

record AIAnalysisResponse =
  ticker :: string
  timestamp :: string
  emotion :: string
  conclusion :: string
  positive_news :: "string list"
  negative_news :: "string list"

text \<open>The entry of \<open>2330.TW\<close> (lines 12 to 17 of api\_service.py).\<close>

definition entry_2330 :: analysis_entry where
  "entry_2330 = \<lparr>
     entry_emotion =
       [CHR 0xE5, CHR 0xBC, CHR 0xB7, CHR 0xE7, CHR 0x83, CHR 0x88, CHR 0xE7, CHR 0x9C,
       CHR 0x8B, CHR 0xE6, CHR 0xBC, CHR 0xB2],
     entry_conclusion =
       ''AI '' @ [CHR 0xE9, CHR 0x9C, CHR 0x80, CHR 0xE6, CHR 0xB1, CHR 0x82, CHR 0xE7,
       CHR 0x88, CHR 0x86, CHR 0xE7, CHR 0x99, CHR 0xBC, CHR 0xEF, CHR 0xBC, CHR 0x8C,
       CHR 0xE6, CHR 0xB3, CHR 0x95, CHR 0xE8, CHR 0xAA, CHR 0xAA, CHR 0xE6, CHR 0x9C,
       CHR 0x83, CHR 0xE5, CHR 0xB1, CHR 0x95, CHR 0xE6, CHR 0x9C, CHR 0x9B, CHR 0xE6,
       CHR 0xA8, CHR 0x82, CHR 0xE8, CHR 0xA7, CHR 0x80, CHR 0xEF, CHR 0xBC, CHR 0x8C,
       CHR 0xE9, CHR 0x95, CHR 0xB7, CHR 0xE6, CHR 0x9C, CHR 0x9F, CHR 0xE6, CHR 0x8A,
       CHR 0x80, CHR 0xE8, CHR 0xA1, CHR 0x93, CHR 0xE9, CHR 0xA0, CHR 0x98, CHR 0xE5,
       CHR 0x85, CHR 0x88, CHR 0xE5, CHR 0x84, CHR 0xAA, CHR 0xE5, CHR 0x8B, CHR 0xA2,
       CHR 0xE5, CHR 0xBC, CHR 0xB7, CHR 0xE5, CHR 0x8B, CHR 0x81, CHR 0xE3, CHR 0x80,
       CHR 0x82],
     entry_positive_news = [
       ''Q3 '' @ [CHR 0xE8, CHR 0xB2, CHR 0xA1, CHR 0xE5, CHR 0xA0, CHR 0xB1, CHR 0xE8,
       CHR 0xB6, CHR 0x85, CHR 0xE9, CHR 0xA0, CHR 0x90, CHR 0xE6, CHR 0x9C, CHR 0x9F,
       CHR 0xEF, CHR 0xBC, CHR 0x8C] @ ''AI '' @ [CHR 0xE9, CHR 0x9C, CHR 0x80, CHR 0xE6,
       CHR 0xB1, CHR 0x82, CHR 0xE6, CHR 0x98, CHR 0xAF, CHR 0xE4, CHR 0xB8, CHR 0xBB,
       CHR 0xE8, CHR 0xA6, CHR 0x81, CHR 0xE5, CHR 0x8B, CHR 0x95, CHR 0xE8, CHR 0x83,
       CHR 0xBD, CHR 0xE3, CHR 0x80, CHR 0x82],
       [CHR 0xE5, CHR 0xA4, CHR 0x9A, CHR 0xE5, CHR 0xAE, CHR 0xB6, CHR 0xE5, CHR 0x88,
       CHR 0xB8, CHR 0xE5, CHR 0x95, CHR 0x86, CHR 0xE8, CHR 0xAA, CHR 0xBF, CHR 0xE9,
       CHR 0xAB, CHR 0x98, CHR 0xE7, CHR 0x9B, CHR 0xAE, CHR 0xE6, CHR 0xA8, CHR 0x99,
       CHR 0xE5, CHR 0x83, CHR 0xB9, CHR 0xE3, CHR 0x80, CHR 0x82]],
     entry_negative_news = [
       [CHR 0xE7, CHR 0x9F, CHR 0xAD, CHR 0xE6, CHR 0x9C, CHR 0x9F, CHR 0xE8, CHR 0x82,
       CHR 0xA1, CHR 0xE5, CHR 0x83, CHR 0xB9, CHR 0xE6, CHR 0xBC, CHR 0xB2, CHR 0xE5,
       CHR 0xA4, CHR 0x9A, CHR 0xEF, CHR 0xBC, CHR 0x8C, CHR 0xE6, CHR 0x9C, CHR 0x89,
       CHR 0xE6, CHR 0x8A, CHR 0x80, CHR 0xE8, CHR 0xA1, CHR 0x93, CHR 0xE6, CHR 0x80,
       CHR 0xA7, CHR 0xE6, CHR 0x95, CHR 0xB4, CHR 0xE7, CHR 0x90, CHR 0x86, CHR 0xE5,
       CHR 0xA3, CHR 0x93, CHR 0xE5, CHR 0x8A, CHR 0x9B, CHR 0xE3, CHR 0x80, CHR 0x82]]\<rparr>"

text \<open>The entry of \<open>00878.TW\<close> (lines 18 to 23).\<close>

definition entry_00878 :: analysis_entry where
  "entry_00878 = \<lparr>
     entry_emotion =
       [CHR 0xE4, CHR 0xB8, CHR 0xAD, CHR 0xE6, CHR 0x80, CHR 0xA7, CHR 0xE5, CHR 0x81,
       CHR 0x8F, CHR 0xE7, CHR 0x9C, CHR 0x8B, CHR 0xE6, CHR 0xBC, CHR 0xB2],
     entry_conclusion =
       ''ETF '' @ [CHR 0xE7, CHR 0xB5, CHR 0x90, CHR 0xE6, CHR 0xA7, CHR 0x8B, CHR 0xE5,
       CHR 0x85, CHR 0xB7, CHR 0xE5, CHR 0x82, CHR 0x99, CHR 0xE6, CHR 0x88, CHR 0x90,
       CHR 0xE9, CHR 0x95, CHR 0xB7, CHR 0xE8, CHR 0x88, CHR 0x87, CHR 0xE9, CHR 0x98,
       CHR 0xB2, CHR 0xE7, CHR 0xA6, CHR 0xA6, CHR 0xEF, CHR 0xBC, CHR 0x8C, CHR 0xE5,
       CHR 0x9F, CHR 0xBA, CHR 0xE6, CHR 0x9C, CHR 0xAC, CHR 0xE9, CHR 0x9D, CHR 0xA2,
       CHR 0xE6, CHR 0x94, CHR 0xAF, CHR 0xE6, CHR 0x92, CHR 0x90, CHR 0xE8, CHR 0xB6,
       CHR 0xA8, CHR 0xE5, CHR 0x8B, CHR 0xA2, CHR 0xE5, CHR 0x90, CHR 0x91, CHR 0xE4,
       CHR 0xB8, CHR 0x8A, CHR 0xE3, CHR 0x80, CHR 0x82],
     entry_positive_news = [
       ''AI + '' @ [CHR 0xE9, CHR 0x87, CHR 0x91, CHR 0xE8, CHR 0x9E, CHR 0x8D, CHR 0xE9,
       CHR 0x9B, CHR 0x99, CHR 0xE5, CHR 0x8B, CHR 0x95, CHR 0xE8, CHR 0x83, CHR 0xBD,
       CHR 0xE3, CHR 0x80, CHR 0x82],
       [CHR 0xE8, CHR 0xA6, CHR 0x8F, CHR 0xE6, CHR 0xA8, CHR 0xA1, CHR 0xE7, CHR 0xA9,
       CHR 0xA9, CHR 0xE5, CHR 0xAE, CHR 0x9A, CHR 0xE6, CHR 0x88, CHR 0x90, CHR 0xE9,
       CHR 0x95, CHR 0xB7, CHR 0xEF, CHR 0xBC, CHR 0x8C, CHR 0xE5, CHR 0xA1, CHR 0xAB,
       CHR 0xE6, CHR 0x81, CHR 0xAF, CHR 0xE7, CHR 0x8E, CHR 0x87, CHR 0xE7, CHR 0xA9,
       CHR 0xA9, CHR 0xE5, CHR 0xAE, CHR 0x9A, CHR 0xE3, CHR 0x80, CHR 0x82]],
     entry_negative_news = [
       [CHR 0xE9, CHR 0x9C, CHR 0x80, CHR 0xE9, CHR 0x97, CHR 0x9C, CHR 0xE6, CHR 0xB3,
       CHR 0xA8, CHR 0xE9, CHR 0x85, CHR 0x8D, CHR 0xE6, CHR 0x81, CHR 0xAF, CHR 0xE6,
       CHR 0xB3, CHR 0xA2, CHR 0xE5, CHR 0x8B, CHR 0x95, CHR 0xE3, CHR 0x80, CHR 0x82]]\<rparr>"

text \<open>The entry of \<open>0050.TW\<close> (lines 24 to 29).\<close>

definition entry_0050 :: analysis_entry where
  "entry_0050 = \<lparr>
     entry_emotion =
       [CHR 0xE4, CHR 0xB8, CHR 0xAD, CHR 0xE6, CHR 0x80, CHR 0xA7, CHR 0xE5, CHR 0x81,
       CHR 0x8F, CHR 0xE7, CHR 0x9C, CHR 0x8B, CHR 0xE6, CHR 0xBC, CHR 0xB2],
     entry_conclusion =
       [CHR 0xE6, CHR 0xA0, CHR 0xB8, CHR 0xE5, CHR 0xBF, CHR 0x83, CHR 0xE8, CHR 0xB3,
       CHR 0x87, CHR 0xE7, CHR 0x94, CHR 0xA2, CHR 0xE5, CHR 0x84, CHR 0xAA, CHR 0xE5,
       CHR 0x8B, CHR 0xA2, CHR 0xE5, CHR 0x92, CHR 0x8C, CHR 0xE5, CHR 0x8F, CHR 0xB0,
       CHR 0xE7, CHR 0xA9, CHR 0x8D, CHR 0xE9, CHR 0x9B, CHR 0xBB, CHR 0xE6, CHR 0x94,
       CHR 0xAF, CHR 0xE6, CHR 0x92, CHR 0x90, CHR 0xEF, CHR 0xBC, CHR 0x8C, CHR 0xE5,
       CHR 0x84, CHR 0x98, CHR 0xE7, CHR 0xAE, CHR 0xA1, CHR 0xE7, CHR 0x9F, CHR 0xAD,
       CHR 0xE6, CHR 0x9C, CHR 0x9F, CHR 0xE6, CHR 0x9C, CHR 0x89, CHR 0xE8, CHR 0xAA,
       CHR 0xBF, CHR 0xE7, CHR 0xAF, CHR 0x80, CHR 0xEF, CHR 0xBC, CHR 0x8C, CHR 0xE9,
       CHR 0x95, CHR 0xB7, CHR 0xE6, CHR 0x9C, CHR 0x9F, CHR 0xE4, CHR 0xBB, CHR 0x8D,
       CHR 0xE5, CHR 0x85, CHR 0xB7, CHR 0xE7, CHR 0xA9, CHR 0xA9, CHR 0xE5, CHR 0x81,
       CHR 0xA5, CHR 0xE6, CHR 0x88, CHR 0x90, CHR 0xE9, CHR 0x95, CHR 0xB7, CHR 0xE5,
       CHR 0x8B, CHR 0x95, CHR 0xE5, CHR 0x8A, CHR 0x9B, CHR 0xE3, CHR 0x80, CHR 0x82],
     entry_positive_news = [
       [CHR 0xE8, CHR 0xA6, CHR 0x8F, CHR 0xE6, CHR 0xA8, CHR 0xA1, CHR 0xE6, CHR 0x9C,
       CHR 0x9D, CHR 0xE5, CHR 0x85, CHR 0x86, CHR 0xE5, CHR 0x85, CHR 0x83, CHR 0xE7,
       CHR 0xB4, CHR 0x9A] @ '' ETF '' @ [CHR 0xE5, CHR 0x89, CHR 0x8D, CHR 0xE9, CHR 0x80,
       CHR 0xB2, CHR 0xE3, CHR 0x80, CHR 0x82],
       [CHR 0xE5, CHR 0x8F, CHR 0xB0, CHR 0xE7, CHR 0xA9, CHR 0x8D, CHR 0xE9, CHR 0x9B,
       CHR 0xBB, CHR 0xE6, CHR 0xAC, CHR 0x8A, CHR 0xE9, CHR 0x87, CHR 0x8D, CHR 0xE9,
       CHR 0xAB, CHR 0x98, CHR 0xEF, CHR 0xBC, CHR 0x8C, CHR 0xE5, CHR 0x8F, CHR 0x97,
       CHR 0xE6, CHR 0x83, CHR 0xA0] @ '' AI '' @ [CHR 0xE6, CHR 0xB5, CHR 0xAA, CHR 0xE6,
       CHR 0xBD, CHR 0xAE, CHR 0xE3, CHR 0x80, CHR 0x82]],
     entry_negative_news = [
       [CHR 0xE8, CHR 0xBF, CHR 0x91, CHR 0xE6, CHR 0x9C, CHR 0x9F, CHR 0xE5, CHR 0xA4,
       CHR 0x96, CHR 0xE8, CHR 0xB3, CHR 0x87, CHR 0xE6, CHR 0x8C, CHR 0x81, CHR 0xE7,
       CHR 0xBA, CHR 0x8C, CHR 0xE8, CHR 0xB3, CHR 0xA3, CHR 0xE8, CHR 0xB6, CHR 0x85,
       CHR 0xE3, CHR 0x80, CHR 0x82]]\<rparr>"

definition MOCK_AI_DATABASE :: "string \<rightharpoonup> analysis_entry" where
  "MOCK_AI_DATABASE =
     map_of [(''2330.TW'', entry_2330), (''00878.TW'', entry_00878), (''0050.TW'', entry_0050)]"

text \<open>U+4E2D U+6027, the neutral emotion of the fallback (line 62)\<close>

definition emotion_neutral :: string where
  "emotion_neutral =
       [CHR 0xE4, CHR 0xB8, CHR 0xAD, CHR 0xE6, CHR 0x80, CHR 0xA7]"

text \<open>
  The two literal parts of the f-string of line 63, before and after the ticker:
  AI U+5206 U+6790 U+5EAB U+66AB U+7121 and U+7684 U+6587 U+672C U+6578 U+64DA U+FF0C U+50C5
  U+63D0 U+4F9B U+91CF U+5316 U+5206 U+6790 U+3002, each with the blank that separates it
  from the ticker.
\<close>

definition conclusion_prefix :: string where
  "conclusion_prefix =
       ''AI '' @ [CHR 0xE5, CHR 0x88, CHR 0x86, CHR 0xE6, CHR 0x9E, CHR 0x90, CHR 0xE5,
       CHR 0xBA, CHR 0xAB, CHR 0xE6, CHR 0x9A, CHR 0xAB, CHR 0xE7, CHR 0x84, CHR 0xA1]
       @ '' ''"

definition conclusion_suffix :: string where
  "conclusion_suffix =
       '' '' @ [CHR 0xE7, CHR 0x9A, CHR 0x84, CHR 0xE6, CHR 0x96, CHR 0x87, CHR 0xE6,
       CHR 0x9C, CHR 0xAC, CHR 0xE6, CHR 0x95, CHR 0xB8, CHR 0xE6, CHR 0x93, CHR 0x9A,
       CHR 0xEF, CHR 0xBC, CHR 0x8C, CHR 0xE5, CHR 0x83, CHR 0x85, CHR 0xE6, CHR 0x8F,
       CHR 0x90, CHR 0xE4, CHR 0xBE, CHR 0x9B, CHR 0xE9, CHR 0x87, CHR 0x8F, CHR 0xE5,
       CHR 0x8C, CHR 0x96, CHR 0xE5, CHR 0x88, CHR 0x86, CHR 0xE6, CHR 0x9E, CHR 0x90,
       CHR 0xE3, CHR 0x80, CHR 0x82]"

section \<open>get\_ai\_analysis\<close>

text \<open>
  \<open>str.upper()\<close> on the letters of ASCII: \<open>a\<close> to \<open>z\<close> become \<open>A\<close> to \<open>Z\<close>, every other
  byte is kept. The case mapping that Python applies to letters beyond ASCII is not
  modelled.
\<close>

definition upper_char :: "char \<Rightarrow> char" where
  "upper_char c =
     (let n = (of_char c :: nat)
      in if 97 \<le> n \<and> n \<le> 122 then char_of (n - 32) else c)"

definition upper :: "string \<Rightarrow> string" where
  "upper s = map upper_char s"

text \<open>
  The handler of the route. \<open>now\<close> is the text of
  \<open>datetime.now().strftime('%Y-%m-%d %H:%M:%S')\<close> at the call. The subscript
  \<open>MOCK_AI_DATABASE[ticker]\<close> raises \<open>KeyError\<close> on a missing key; the handler reaches it
  only after the membership test.
\<close>

definition get_ai_analysis :: "string \<Rightarrow> string \<Rightarrow> py_error + AIAnalysisResponse" where
  "get_ai_analysis now symbol =
     (let symbol = upper symbol
      in if MOCK_AI_DATABASE symbol \<noteq> None then
           (case MOCK_AI_DATABASE symbol of
              None \<Rightarrow> Inl KeyError
            | Some data \<Rightarrow>
                Inr \<lparr>ticker = symbol, timestamp = now,
                     emotion = entry_emotion data,
                     conclusion = entry_conclusion data,
                     positive_news = entry_positive_news data,
                     negative_news = entry_negative_news data\<rparr>)
         else
           Inr \<lparr>ticker = symbol, timestamp = now,
                emotion = emotion_neutral,
                conclusion = conclusion_prefix @ symbol @ conclusion_suffix,
                positive_news = [],
                negative_news = []\<rparr>)"

subsection \<open>The HTTP boundary\<close>

datatype json = JString string | JArray "json list"

text \<open>
  The JSON object that \<open>response_model=AIAnalysisResponse\<close> writes: one member for each
  field of the class, under the name of the field.
\<close>

definition response_json :: "AIAnalysisResponse \<Rightarrow> (string \<times> json) list" where
  "response_json r =
     [(''ticker'', JString (ticker r)),
      (''timestamp'', JString (timestamp r)),
      (''emotion'', JString (emotion r)),
      (''conclusion'', JString (conclusion r)),
      (''positive_news'', JArray (map JString (positive_news r))),
      (''negative_news'', JArray (map JString (negative_news r)))]"

text \<open>
  The application has the single route \<open>@app.get("/api/analyze/{ticker}")\<close>. A path
  matches it when it is the prefix \<open>/api/analyze/\<close> followed by one non-empty segment,
  which is the path parameter.
\<close>

definition route_prefix :: string where
  "route_prefix = ''/api/analyze/''"

definition match_route :: "string \<Rightarrow> string option" where
  "match_route path =
     (let param = drop (length route_prefix) path
      in if take (length route_prefix) path = route_prefix \<and> param \<noteq> [] \<and>
            CHR ''/'' \<notin> set param
         then Some param else None)"

datatype http_response = Ok200 AIAnalysisResponse | NotFound404 | ServerError500

text \<open>A GET request for a path: 404 when no route matches, 500 when the handler raises.\<close>

definition app_get :: "string \<Rightarrow> string \<Rightarrow> http_response" where
  "app_get now path =
     (case match_route path of
        None \<Rightarrow> NotFound404
      | Some param \<Rightarrow>
          (case get_ai_analysis now param of
             Inl e \<Rightarrow> ServerError500
           | Inr r \<Rightarrow> Ok200 r))"

fun status_code :: "http_response \<Rightarrow> nat" where
  "status_code (Ok200 r) = 200"
| "status_code NotFound404 = 404"
| "status_code ServerError500 = 500"

text \<open>The members of the JSON object in the body; the error bodies are those of the framework.\<close>

fun json_body :: "http_response \<Rightarrow> (string \<times> json) list" where
  "json_body (Ok200 r) = response_json r"
| "json_body NotFound404 = [(''detail'', JString ''Not Found'')]"
| "json_body ServerError500 = []"

section \<open>The report page of app.py\<close>

text \<open>
  \<open>fetch_ai_analysis(ticker)\<close>: the request either fails to connect (line 51) or reaches
  the service; \<open>raise_for_status\<close> raises on a status of 400 or more, which the second
  handler catches (line 54). Both handlers return \<open>None\<close>. The dictionary read from
  the body of a 200 response is represented by the record it was written from.
\<close>

datatype transport = Unreachable | Reached

definition fetch_ai_analysis :: "transport \<Rightarrow> string \<Rightarrow> string \<Rightarrow> AIAnalysisResponse option" where
  "fetch_ai_analysis net now symbol =
     (case net of
        Unreachable \<Rightarrow> None
      | Reached \<Rightarrow>
          (case app_get now (''/api/analyze/'' @ symbol) of
             Ok200 r \<Rightarrow> Some r
           | _ \<Rightarrow> None))"

text \<open>
  The assignment \<open>a, b, c = t\<close> raises \<open>ValueError\<close> unless the tuple has exactly three
  components.
\<close>

fun unpack3 :: "pyval list \<Rightarrow> py_error + (pyval \<times> pyval \<times> pyval)" where
  "unpack3 [a, b, c] = Inr (a, b, c)"
| "unpack3 _ = Inl ValueError"

text \<open>\<open>s.replace(old, "")\<close>: every occurrence of \<open>old\<close>, from the left, is removed.\<close>

function remove_all :: "string \<Rightarrow> string \<Rightarrow> string" where
  "remove_all old [] = []"
| "remove_all old (c # cs) =
     (if old \<noteq> [] \<and> take (length old) (c # cs) = old
      then remove_all old (drop (length old) (c # cs))
      else c # remove_all old cs)"
  by pat_completeness auto
termination
  by (relation "measure (\<lambda>(old, s). length s)") (auto simp: neq_Nil_conv)

text \<open>What the report page shows when it gets to the end (lines 97 to 139).\<close>

record report =
  header_ticker :: string
  stock_name :: string
  latest_price :: price
  latest_date :: date
  trend_column :: "pyval list"
  description_column :: "pyval list"
  positive_items :: "string list"
  negative_items :: "string list"
  plotted_rows :: "row list"

datatype page_outcome = Raised py_error | RetryPrompt | ReportShown report

text \<open>
  The branch \<open>page == 'report'\<close> of \<open>main\<close> for the ticker \<open>symbol\<close> of the session.
  The frame is not empty where \<open>iloc[-1]\<close> reads it; an empty frame would raise
  \<open>IndexError\<close>, and a first component that is not a frame \<open>TypeError\<close>.
\<close>

definition main_report ::
  "rolling_lib \<Rightarrow> download_outcome \<Rightarrow> transport \<Rightarrow> string \<Rightarrow> string \<Rightarrow> page_outcome" where
  "main_report lib dl net now symbol =
     (case unpack3 (fetch_and_analyze lib dl) of
        Inl e \<Rightarrow> Raised e
      | Inr (df, quant_trend, quant_desc) \<Rightarrow>
          (case (df, fetch_ai_analysis net now symbol) of
             (PyNone, _) \<Rightarrow> RetryPrompt
           | (_, None) \<Rightarrow> RetryPrompt
           | (PyFrame rows, Some ai_analysis_result) \<Rightarrow>
               if rows = [] then Raised IndexError
               else ReportShown \<lparr>
                 header_ticker = symbol,
                 stock_name = remove_all ''.TW'' (ticker ai_analysis_result),
                 latest_price = Current_Price (last rows),
                 latest_date = Date (last rows),
                 trend_column =
                   [quant_trend, PyStr (emotion ai_analysis_result),
                    PyStr (emotion ai_analysis_result)],
                 description_column =
                   [quant_desc, PyStr (conclusion ai_analysis_result),
                    PyStr (conclusion ai_analysis_result)],
                 positive_items = positive_news ai_analysis_result,
                 negative_items = negative_news ai_analysis_result,
                 plotted_rows = dropna rows\<rparr>
           | (PyStr s, Some ai_analysis_result) \<Rightarrow> Raised TypeError))"

subsection \<open>Observations on a result\<close>

text \<open>The dates of the frame in the tuple returned by \<open>fetch_and_analyze\<close>, row by row.\<close>

fun frame_dates :: "pyval list \<Rightarrow> date list" where
  "frame_dates (PyFrame df # rest) = map Date df"
| "frame_dates _ = []"

subsection \<open>Two answers of the library\<close>

text \<open>The number held by an entry, if it holds one.\<close>

fun number_of :: "price \<Rightarrow> rat option" where
  "number_of (Some (Val q)) = Some q"
| "number_of _ = None"

text \<open>
  The rolling mean computed without rounding: NaN on a window that is not full or that
  holds an entry which is not a number (pandas turns an infinity into NaN before it
  averages), otherwise the exact mean of the window. On a column whose window sums and
  means are all doubles, as in the example series below, the double-precision library
  returns this column: no operation of its running sum rounds.
\<close>

definition exact_mean :: "price list \<Rightarrow> price" where
  "exact_mean win =
     (case those (map number_of win) of
        None \<Rightarrow> None
      | Some vs \<Rightarrow> Some (Val (sum_list vs / of_nat (length vs))))"

definition exact_rolling_mean :: rolling_lib where
  "exact_rolling_mean w xs =
     map (\<lambda>i. if i + 1 < w then None else exact_mean (take w (drop (i + 1 - w) xs)))
       [0..<length xs]"


subsection \<open>Example inputs\<close>


text \<open>
  A row of the download with no missing entry: open, high and low equal to the close,
  and a volume of 1000.
\<close>

definition complete_row :: "date \<Rightarrow> rat \<Rightarrow> raw_row" where
  "complete_row d c =
     \<lparr>trade_date = d, Close = Some (Val c),
      other_columns = [Some (Val c), Some (Val c), Some (Val c), Some (Val 1000)]\<rparr>"

text \<open>The same row with the volume missing.\<close>

definition row_without_volume :: "date \<Rightarrow> rat \<Rightarrow> raw_row" where
  "row_without_volume d c =
     \<lparr>trade_date = d, Close = Some (Val c),
      other_columns = [Some (Val c), Some (Val c), Some (Val c), None]\<rparr>"

text \<open>Twenty-one trading days with closes rising from 500 to 600 in steps of 5.\<close>

definition rising_series :: raw_frame where
  "rising_series = map (\<lambda>d. complete_row d (500 + 5 * of_nat d)) [0..<21]"

text \<open>Twenty trading days with the close 100 on each.\<close>

definition constant_series :: raw_frame where
  "constant_series = map (\<lambda>d. complete_row d 100) [0..<20]"

text \<open>Three trading days: too few for the window of the long average.\<close>

definition short_series :: raw_frame where
  "short_series = [complete_row 0 100, complete_row 1 101, complete_row 2 99]"

text \<open>A raw response with a repeated date and dates out of order.\<close>

definition shuffled_series :: raw_frame where
  "shuffled_series = [complete_row 3 10, complete_row 1 11, complete_row 3 12]"


text \<open>
  Twenty days at 100 and a last day at 200 whose volume is missing. On the last day the
  short average is 120 and the long average 105; on the day before both are 100.
\<close>

definition gap_series :: raw_frame where
  "gap_series = map (\<lambda>d. complete_row d 100) [0..<20] @ [row_without_volume 20 200]"

text \<open>
  Twenty-one rows in descending order of date: closes rising from 500 to 595 and then a
  close of 100 on the oldest day, which is the last row.
\<close>

definition descending_series :: raw_frame where
  "descending_series =
     map (\<lambda>d. complete_row (20 - d) (500 + 5 * of_nat d)) [0..<20] @ [complete_row 0 100]"






section \<open>Properties of the moving averages\<close>

lemma length_rolling_mean: "length (rolling_mean lib w xs) = length xs"
  by (simp add: rolling_mean_def)

lemma rolling_mean_nth:
  "i < length xs \<Longrightarrow>
   rolling_mean lib w xs ! i = (if i + 1 < w then None else entry (lib w xs) i)"
  by (simp add: rolling_mean_def)

lemma length_add_moving_averages: "length (add_moving_averages lib raw) = length raw"
  by (simp add: add_moving_averages_def Let_def length_rolling_mean)

lemma add_moving_averages_nth:
  "i < length raw \<Longrightarrow>
   add_moving_averages lib raw ! i =
     \<lparr>Date = trade_date (raw ! i), Current_Price = Close (raw ! i),
      MA_Short = rolling_mean lib 5 (map Close raw) ! i,
      MA_Long = rolling_mean lib 20 (map Close raw) ! i,
      Other_Columns = other_columns (raw ! i)\<rparr>"
  by (simp add: add_moving_averages_def Let_def length_rolling_mean split_beta)

lemma map_Date_add_moving_averages:
  "map Date (add_moving_averages lib raw) = map trade_date raw"
  by (rule nth_equalityI) (simp_all add: length_add_moving_averages add_moving_averages_nth)

lemma map_Current_Price_add_moving_averages:
  "map Current_Price (add_moving_averages lib raw) = map Close raw"
  by (rule nth_equalityI) (simp_all add: length_add_moving_averages add_moving_averages_nth)

lemma map_Other_Columns_add_moving_averages:
  "map Other_Columns (add_moving_averages lib raw) = map other_columns raw"
  by (rule nth_equalityI) (simp_all add: length_add_moving_averages add_moving_averages_nth)

subsection \<open>The rolling mean without rounding\<close>


lemma those_map_Some: "those (map Some vs) = Some vs"
  by (induction vs) auto


lemma number_of_numbers: "map number_of (map (\<lambda>v. Some (Val v)) vs) = map Some vs"
  by (induction vs) auto

lemma exact_mean_numbers:
  "exact_mean (map (\<lambda>v. Some (Val v)) vs) = Some (Val (sum_list vs / of_nat (length vs)))"
  by (simp only: exact_mean_def number_of_numbers those_map_Some) simp




section \<open>Properties of fetch\_and\_analyze\<close>

lemma fetch_and_analyze_undetermined:
  "raw \<noteq> [] \<Longrightarrow> dropna (add_moving_averages lib raw) = [] \<Longrightarrow>
   fetch_and_analyze lib (Downloaded raw) =
     [PyFrame (add_moving_averages lib raw), PyStr trend_na, PyStr desc_insufficient]"
  by (simp add: fetch_and_analyze_def)

lemma fetch_and_analyze_determined:
  "raw \<noteq> [] \<Longrightarrow> dropna (add_moving_averages lib raw) \<noteq> [] \<Longrightarrow>
   fetch_and_analyze lib (Downloaded raw) =
     [PyFrame (add_moving_averages lib raw),
      PyStr (if py_gt (MA_Short (last (dropna (add_moving_averages lib raw))))
                      (MA_Long (last (dropna (add_moving_averages lib raw))))
             then trend_bullish else trend_bearish),
      PyStr desc_ma]"
  by (simp add: fetch_and_analyze_def Let_def)

lemma fetch_and_analyze_shape:
  assumes "raw \<noteq> []"
  shows "\<exists>quant_trend quant_desc.
           fetch_and_analyze lib (Downloaded raw) =
             [PyFrame (add_moving_averages lib raw), PyStr quant_trend, PyStr quant_desc]"
proof (cases "dropna (add_moving_averages lib raw) = []")
  case True
  from fetch_and_analyze_undetermined[OF assms True] show ?thesis by blast
next
  case False
  from fetch_and_analyze_determined[OF assms False] show ?thesis by blast
qed


text \<open>The last row that passes a filter is the last row of the filtered list.\<close>

lemma last_filter_at:
  assumes "i < length xs" and "P (xs ! i)"
    and "\<forall>j. i < j \<and> j < length xs \<longrightarrow> \<not> P (xs ! j)"
  shows "filter P xs \<noteq> [] \<and> last (filter P xs) = xs ! i"
proof -
  have split: "xs = take i xs @ xs ! i # drop (Suc i) xs"
    using assms(1) by (simp add: id_take_nth_drop)
  have "\<forall>x \<in> set (drop (Suc i) xs). \<not> P x"
  proof
    fix x assume "x \<in> set (drop (Suc i) xs)"
    then obtain k where k: "k < length (drop (Suc i) xs)" "x = drop (Suc i) xs ! k"
      by (auto simp: in_set_conv_nth)
    then have "x = xs ! (Suc i + k)" by simp
    moreover have "i < Suc i + k \<and> Suc i + k < length xs" using k(1) by simp
    ultimately show "\<not> P x" using assms(3) by blast
  qed
  then have "filter P (drop (Suc i) xs) = []" by (simp add: filter_empty_conv)
  then have "filter P xs = filter P (take i xs) @ [xs ! i]"
    using assms(2) by (subst split) simp
  then show ?thesis by simp
qed

text \<open>The signal is read from the last row that \<open>dropna\<close> keeps.\<close>

lemma trend_at_last_complete_row:
  assumes i: "i < length raw"
    and complete: "notna_row (add_moving_averages lib raw ! i)"
    and s: "MA_Short (add_moving_averages lib raw ! i) = Some s"
    and l: "MA_Long (add_moving_averages lib raw ! i) = Some l"
    and latest: "\<forall>j. i < j \<and> j < length raw \<longrightarrow>
           \<not> notna_row (add_moving_averages lib raw ! j)"
  shows "fetch_and_analyze lib (Downloaded raw) =
           [PyFrame (add_moving_averages lib raw),
            PyStr (if f64_less l s then trend_bullish else trend_bearish),
            PyStr desc_ma]"
proof -
  let ?df = "add_moving_averages lib raw"
  have len: "length ?df = length raw" by (rule length_add_moving_averages)
  have Pj: "\<forall>j. i < j \<and> j < length ?df \<longrightarrow> \<not> notna_row (?df ! j)"
    using latest by (simp add: len)
  have "i < length ?df" using i by (simp add: len)
  from last_filter_at[OF this complete Pj]
  have ne: "dropna ?df \<noteq> []" and la: "last (dropna ?df) = ?df ! i"
    by (simp_all add: dropna_def)
  have "raw \<noteq> []" using i by auto
  from fetch_and_analyze_determined[OF this ne] show ?thesis
    by (simp add: la s l)
qed

text \<open>In a frame in ascending order of date, a later row has a later date.\<close>

lemma ascending_dates_latest:
  assumes asc: "sorted_wrt (<) (map trade_date raw)"
    and i: "i < length raw" and j: "j < length raw"
    and later: "Date (add_moving_averages lib raw ! i) < Date (add_moving_averages lib raw ! j)"
  shows "i < j"
proof (rule ccontr)
  assume "\<not> i < j"
  then have "j \<le> i" by simp
  have "trade_date (raw ! j) \<le> trade_date (raw ! i)"
  proof (cases "j = i")
    case True
    then show ?thesis by simp
  next
    case False
    with \<open>j \<le> i\<close> have "j < i" by simp
    from sorted_wrt_nth_less[OF asc this] i have "map trade_date raw ! j < map trade_date raw ! i"
      by simp
    with i j show ?thesis by simp
  qed
  with later i j show False by (simp add: add_moving_averages_nth)
qed

section \<open>The report page on a successful fetch\<close>

text \<open>
  The rising series with the service reachable: the page shows the report, with the latest
  close 600, the bullish signal and the entry of \<open>2330.TW\<close>; the chart has the two rows on
  which both averages are present. With the service unreachable the page offers to go
  back.
\<close>

lemma report_for_rising_series:
  "main_report exact_rolling_mean (Downloaded rising_series) Reached ''2026-01-01 00:00:00''
     ''2330.TW'' =
     ReportShown \<lparr>
       header_ticker = ''2330.TW'',
       stock_name = ''2330'',
       latest_price = Some (Val 600),
       latest_date = 20,
       trend_column =
         [PyStr trend_bullish, PyStr (entry_emotion entry_2330),
          PyStr (entry_emotion entry_2330)],
       description_column =
         [PyStr desc_ma, PyStr (entry_conclusion entry_2330),
          PyStr (entry_conclusion entry_2330)],
       positive_items = entry_positive_news entry_2330,
       negative_items = entry_negative_news entry_2330,
       plotted_rows =
         [\<lparr>Date = 19, Current_Price = Some (Val 595), MA_Short = Some (Val 585),
           MA_Long = Some (Val (1095 / 2)),
           Other_Columns = [Some (Val 595), Some (Val 595), Some (Val 595), Some (Val 1000)]\<rparr>,
          \<lparr>Date = 20, Current_Price = Some (Val 600), MA_Short = Some (Val 590),
           MA_Long = Some (Val (1105 / 2)),
           Other_Columns = [Some (Val 600), Some (Val 600), Some (Val 600), Some (Val 1000)]\<rparr>]\<rparr>"
  by code_simp

lemma retry_when_service_unreachable:
  "main_report exact_rolling_mean (Downloaded rising_series) Unreachable
     ''2026-01-01 00:00:00'' ''2330.TW'' = RetryPrompt"
  by code_simp

section \<open>The claims on the trend analysis\<close>




text \<open>
  C2, as amended. The trend signal is read from the last row of the frame that has no
  missing entry in any column, so that both moving averages are present on it: with the
  short average \<open>s\<close> and the long average \<open>l\<close> of that row, the signal is the bullish one if
  \<open>s > l\<close> and the bearish or consolidating one if \<open>s \<le> l\<close>. In a frame in ascending order
  of date this row is the most recent date that has no missing entry. In particular, on
  a series of exactly 20 points with one constant close \<open>c\<close> and a complete final row, when
  the library returns \<open>c\<close> for both averages of the final row, as it does for a window of
  equal values, the two averages are equal there and the signal is the bearish or
  consolidating one.
\<close>

theorem trend_signal_at_latest_defined:
  assumes i: "i < length raw"
    and complete: "notna_row (add_moving_averages lib raw ! i)"
    and s: "MA_Short (add_moving_averages lib raw ! i) = Some s"
    and l: "MA_Long (add_moving_averages lib raw ! i) = Some l"
    and latest: "\<forall>j. i < j \<and> j < length raw \<longrightarrow>
           \<not> notna_row (add_moving_averages lib raw ! j)"
  shows "fetch_and_analyze lib (Downloaded raw) =
           [PyFrame (add_moving_averages lib raw),
            PyStr (if f64_less l s then trend_bullish else trend_bearish),
            PyStr desc_ma] \<and>
         trend_bullish \<noteq> trend_bearish \<and>
         (sorted_wrt (<) (map trade_date raw) \<longrightarrow>
            (\<forall>j < length raw.
               notna_row (add_moving_averages lib raw ! j) \<longrightarrow>
               Date (add_moving_averages lib raw ! j) \<le> Date (add_moving_averages lib raw ! i))) \<and>
         (\<forall>series c.
            length series = 20 \<and> (\<forall>r \<in> set series. Close r = Some (Val c)) \<and>
            list_all (\<lambda>v. v \<noteq> None) (other_columns (series ! 19)) \<and>
            entry (lib 5 (map Close series)) 19 = Some (Val c) \<and>
            entry (lib 20 (map Close series)) 19 = Some (Val c) \<longrightarrow>
            MA_Short (add_moving_averages lib series ! 19) = Some (Val c) \<and>
            MA_Long (add_moving_averages lib series ! 19) = Some (Val c) \<and>
            fetch_and_analyze lib (Downloaded series) =
              [PyFrame (add_moving_averages lib series), PyStr trend_bearish, PyStr desc_ma])"
proof -
  let ?df = "add_moving_averages lib raw"
  have distinct: "trend_bullish \<noteq> trend_bearish"
    by (simp add: trend_bullish_def trend_bearish_def)
  have recent: "Date (?df ! j) \<le> Date (?df ! i)"
    if asc: "sorted_wrt (<) (map trade_date raw)" and j: "j < length raw"
      and cj: "notna_row (?df ! j)" for j
  proof (rule ccontr)
    assume "\<not> Date (?df ! j) \<le> Date (?df ! i)"
    then have "Date (?df ! i) < Date (?df ! j)" by simp
    from ascending_dates_latest[OF asc i j this] have "i < j" .
    with latest j cj show False by blast
  qed
  have tie: "MA_Short (add_moving_averages lib series ! 19) = Some (Val c) \<and>
      MA_Long (add_moving_averages lib series ! 19) = Some (Val c) \<and>
      fetch_and_analyze lib (Downloaded series) =
        [PyFrame (add_moving_averages lib series), PyStr trend_bearish, PyStr desc_ma]"
    if len: "length series = 20" and const: "\<forall>r \<in> set series. Close r = Some (Val c)"
      and others: "list_all (\<lambda>v. v \<noteq> None) (other_columns (series ! 19))"
      and e5: "entry (lib 5 (map Close series)) 19 = Some (Val c)"
      and e20: "entry (lib 20 (map Close series)) 19 = Some (Val c)" for series c
  proof -
    let ?d = "add_moving_averages lib series"
    have i19: "19 < length series" using len by simp
    have "series ! 19 \<in> set series" using i19 by (rule nth_mem)
    with const have close: "Close (series ! 19) = Some (Val c)" by blast
    have s19: "MA_Short (?d ! 19) = Some (Val c)"
      using i19 e5 by (simp add: add_moving_averages_nth rolling_mean_nth)
    have l19: "MA_Long (?d ! 19) = Some (Val c)"
      using i19 e20 by (simp add: add_moving_averages_nth rolling_mean_nth)
    have c19: "notna_row (?d ! 19)"
      using i19 close others s19 l19 by (simp add: notna_row_def add_moving_averages_nth)
    have last19: "\<forall>j. 19 < j \<and> j < length series \<longrightarrow> \<not> notna_row (?d ! j)"
      using len by auto
    from trend_at_last_complete_row[OF i19 c19 s19 l19 last19] s19 l19
    show ?thesis by simp
  qed
  from trend_at_last_complete_row[OF i complete s l latest] distinct recent tie
  show ?thesis by blast
qed

theorem trend_signal_at_latest_defined_witness:
  "20 < length rising_series \<and>
   notna_row (add_moving_averages exact_rolling_mean rising_series ! 20) \<and>
   MA_Short (add_moving_averages exact_rolling_mean rising_series ! 20) = Some (Val 590) \<and>
   MA_Long (add_moving_averages exact_rolling_mean rising_series ! 20) = Some (Val (1105 / 2)) \<and>
   sorted_wrt (<) (map trade_date rising_series) \<and>
   fetch_and_analyze exact_rolling_mean (Downloaded rising_series) =
     [PyFrame (add_moving_averages exact_rolling_mean rising_series), PyStr trend_bullish,
      PyStr desc_ma] \<and>
   length constant_series = 20 \<and>
   map Close constant_series = replicate 20 (Some (Val 100)) \<and>
   entry (exact_rolling_mean 5 (map Close constant_series)) 19 = Some (Val 100) \<and>
   entry (exact_rolling_mean 20 (map Close constant_series)) 19 = Some (Val 100) \<and>
   fetch_and_analyze exact_rolling_mean (Downloaded constant_series) =
     [PyFrame (add_moving_averages exact_rolling_mean constant_series), PyStr trend_bearish,
      PyStr desc_ma]"
proof -
  have n: "length rising_series = 21" by code_simp
  have i: "20 < length rising_series" by (simp add: n)
  have c: "notna_row (add_moving_averages exact_rolling_mean rising_series ! 20)"
    by code_simp
  have s: "MA_Short (add_moving_averages exact_rolling_mean rising_series ! 20) =
      Some (Val 590)"
    by code_simp
  have l: "MA_Long (add_moving_averages exact_rolling_mean rising_series ! 20) =
      Some (Val (1105 / 2))"
    by code_simp
  have asc: "sorted_wrt (<) (map trade_date rising_series)" by code_simp
  have latest: "\<forall>j. 20 < j \<and> j < length rising_series \<longrightarrow>
      \<not> notna_row (add_moving_averages exact_rolling_mean rising_series ! j)"
    by (auto simp: n)
  have c1: "length constant_series = 20" by code_simp
  have c2: "map Close constant_series = replicate 20 (Some (Val 100))" by code_simp
  have c2': "\<forall>r \<in> set constant_series. Close r = Some (Val 100)"
  proof
    fix r assume "r \<in> set constant_series"
    then have "Close r \<in> set (map Close constant_series)" by simp
    then show "Close r = Some (Val 100)"
      by (simp only: c2 set_replicate_conv_if split: if_splits) simp
  qed
  have c3: "list_all (\<lambda>v. v \<noteq> None) (other_columns (constant_series ! 19))" by code_simp
  have c4: "entry (exact_rolling_mean 5 (map Close constant_series)) 19 = Some (Val 100)"
    by code_simp
  have c5: "entry (exact_rolling_mean 20 (map Close constant_series)) 19 = Some (Val 100)"
    by code_simp
  note inst = trend_signal_at_latest_defined[OF i c s l latest]
  from inst have "fetch_and_analyze exact_rolling_mean (Downloaded rising_series) =
      [PyFrame (add_moving_averages exact_rolling_mean rising_series), PyStr trend_bullish,
       PyStr desc_ma]"
    by simp
  moreover from inst c1 c2' c3 c4 c5 have
    "fetch_and_analyze exact_rolling_mean (Downloaded constant_series) =
       [PyFrame (add_moving_averages exact_rolling_mean constant_series), PyStr trend_bearish,
        PyStr desc_ma]"
    by blast
  ultimately show ?thesis using i c s l asc c1 c2 c4 c5 by blast
qed

text \<open>
  C2 as stated fails. In \<open>gap_series\<close> the most recent date on which both moving averages
  are defined is the last one, with the short average 120 above the long average 105,
  yet the signal is the bearish one: the volume of that row is missing, \<open>dropna\<close> discards
  it, and the signal is read from the row before. In \<open>descending_series\<close> the most recent
  date on which both averages are defined is that of row 19, where the short average 585
  is above the long average, yet the signal is the bearish one of the last row, which is
  the oldest date.
\<close>

theorem trend_signal_counterexample:
  "MA_Short (add_moving_averages exact_rolling_mean gap_series ! 20) = Some (Val 120) \<and>
   MA_Long (add_moving_averages exact_rolling_mean gap_series ! 20) = Some (Val 105) \<and>
   Date (add_moving_averages exact_rolling_mean gap_series ! 20) = 20 \<and>
   fetch_and_analyze exact_rolling_mean (Downloaded gap_series) =
     [PyFrame (add_moving_averages exact_rolling_mean gap_series), PyStr trend_bearish,
      PyStr desc_ma] \<and>
   MA_Short (add_moving_averages exact_rolling_mean descending_series ! 19) = Some (Val 585) \<and>
   MA_Long (add_moving_averages exact_rolling_mean descending_series ! 19) =
     Some (Val (1095 / 2)) \<and>
   Date (add_moving_averages exact_rolling_mean descending_series ! 19) = 1 \<and>
   Date (add_moving_averages exact_rolling_mean descending_series ! 20) = 0 \<and>
   fetch_and_analyze exact_rolling_mean (Downloaded descending_series) =
     [PyFrame (add_moving_averages exact_rolling_mean descending_series), PyStr trend_bearish,
      PyStr desc_ma] \<and>
   trend_bullish \<noteq> trend_bearish"
  by code_simp







section \<open>The claims on the failure paths and the report page\<close>

lemma main_report_failure:
  assumes "dl = DownloadRaises \<or> dl = Downloaded []"
  shows "main_report lib dl net now symbol = Raised ValueError"
  using assms by (auto simp: main_report_def fetch_and_analyze_def)

text \<open>A series shorter than the long window has no row with both averages present.\<close>

lemma short_series_undetermined:
  assumes ne: "raw \<noteq> []" and short: "length raw < 20"
  shows "fetch_and_analyze lib (Downloaded raw) =
           [PyFrame (add_moving_averages lib raw), PyStr trend_na, PyStr desc_insufficient] \<and>
         map MA_Long (add_moving_averages lib raw) = replicate (length raw) None"
proof -
  let ?df = "add_moving_averages lib raw"
  have long: "MA_Long (?df ! i) = None" if "i < length raw" for i
    using that short by (simp add: add_moving_averages_nth rolling_mean_nth)
  have "\<not> notna_row r" if "r \<in> set ?df" for r
  proof -
    from that obtain i where "i < length ?df" "r = ?df ! i"
      by (auto simp: in_set_conv_nth)
    then show ?thesis
      using long[of i] by (simp add: length_add_moving_averages notna_row_def)
  qed
  then have "dropna ?df = []" by (simp add: dropna_def filter_empty_conv)
  from fetch_and_analyze_undetermined[OF ne this]
  have res: "fetch_and_analyze lib (Downloaded raw) =
      [PyFrame ?df, PyStr trend_na, PyStr desc_insufficient]" .
  have "map MA_Long ?df = replicate (length raw) None"
    by (rule nth_equalityI) (simp_all add: length_add_moving_averages long)
  with res show ?thesis by simp
qed

text \<open>
  C4, as amended. When the fetched price series is empty, \<open>fetch_and_analyze\<close> treats the
  fetch as failed: it returns the pair of \<open>None\<close> and the message of line 24, with no
  frame, no moving averages and no trend signal. The undetermined signal \<open>N/A\<close>, with a
  long average that is absent on every row, is what a non-empty series of fewer than 20
  points yields.
\<close>

theorem empty_series_is_failed_fetch:
  "fetch_and_analyze lib (Downloaded []) = [PyNone, PyStr msg_no_data] \<and>
   (\<forall>raw. raw \<noteq> [] \<and> length raw < 20 \<longrightarrow>
      fetch_and_analyze lib (Downloaded raw) =
        [PyFrame (add_moving_averages lib raw), PyStr trend_na, PyStr desc_insufficient] \<and>
      map MA_Long (add_moving_averages lib raw) = replicate (length raw) None)"
proof -
  have "fetch_and_analyze lib (Downloaded []) = [PyNone, PyStr msg_no_data]"
    by (simp add: fetch_and_analyze_def)
  with short_series_undetermined show ?thesis by blast
qed

theorem empty_series_is_failed_fetch_witness:
  "short_series \<noteq> [] \<and> length short_series < 20 \<and>
   fetch_and_analyze exact_rolling_mean (Downloaded short_series) =
     [PyFrame (add_moving_averages exact_rolling_mean short_series), PyStr trend_na, PyStr desc_insufficient] \<and>
   map MA_Long (add_moving_averages exact_rolling_mean short_series) = [None, None, None]"
proof -
  have h1: "short_series \<noteq> []" by (simp add: short_series_def complete_row_def)
  have h2: "length short_series < 20" by (simp add: short_series_def complete_row_def)
  have n: "replicate (length short_series) None = [None, None, None :: price]"
    by (simp add: short_series_def complete_row_def)
  from empty_series_is_failed_fetch[of exact_rolling_mean] h1 h2
  have "fetch_and_analyze exact_rolling_mean (Downloaded short_series) =
      [PyFrame (add_moving_averages exact_rolling_mean short_series), PyStr trend_na, PyStr desc_insufficient] \<and>
    map MA_Long (add_moving_averages exact_rolling_mean short_series) = replicate (length short_series) None"
    by blast
  with h1 h2 n show ?thesis by simp
qed

text \<open>
  C4 as stated fails: on the empty series \<open>fetch_and_analyze\<close> returns neither the
  undetermined signal nor an empty frame, and the report page raises \<open>ValueError\<close>.
\<close>

theorem empty_series_counterexample:
  "fetch_and_analyze exact_rolling_mean (Downloaded []) \<noteq> [PyFrame [], PyStr trend_na, PyStr desc_insufficient] \<and>
   PyStr trend_na \<notin> set (fetch_and_analyze exact_rolling_mean (Downloaded [])) \<and>
   main_report exact_rolling_mean (Downloaded []) Reached ''2026-01-01 00:00:00'' ''2330.TW'' = Raised ValueError"
  by (simp add: fetch_and_analyze_def main_report_def trend_na_def msg_no_data_def)

text \<open>
  C5. Whenever the price fetch fails (the download raises, or it returns no rows), the
  report page ends in an error and shows no report, whatever the sentiment service would
  answer: the outcome does not depend on the transport to the service or on its clock.
\<close>

theorem failed_fetch_fails_report:
  assumes "dl = DownloadRaises \<or> dl = Downloaded []"
  shows "(\<exists>e. main_report lib dl net now symbol = Raised e) \<and>
         (\<forall>rep. main_report lib dl net now symbol \<noteq> ReportShown rep) \<and>
         (\<forall>net' now'. main_report lib dl net' now' symbol = main_report lib dl net now symbol)"
  using main_report_failure[OF assms] by simp

theorem failed_fetch_fails_report_witness:
  "(\<exists>e. main_report exact_rolling_mean DownloadRaises Reached ''2026-01-01 00:00:00'' ''2330.TW'' = Raised e) \<and>
   (\<forall>rep. main_report exact_rolling_mean DownloadRaises Reached ''2026-01-01 00:00:00'' ''2330.TW'' \<noteq>
      ReportShown rep) \<and>
   main_report exact_rolling_mean DownloadRaises Unreachable ''2026-01-02 00:00:00'' ''2330.TW'' =
     main_report exact_rolling_mean DownloadRaises Reached ''2026-01-01 00:00:00'' ''2330.TW''"
proof -
  have h: "DownloadRaises = DownloadRaises \<or> DownloadRaises = Downloaded []" by simp
  from failed_fetch_fails_report[OF h, of exact_rolling_mean Reached
      "''2026-01-01 00:00:00''" "''2330.TW''"]
  show ?thesis by blast
qed

text \<open>
  C10. On both failure paths \<open>fetch_and_analyze\<close> returns a tuple of two components,
  \<open>None\<close> and a message; on success it returns three components, the frame, the trend and
  the description. So on every failure input the unpacking into three variables at line
  85 raises \<open>ValueError\<close>, and the page never reaches the branch of line 88 that tests for
  \<open>None\<close>.
\<close>

theorem failure_tuple_arity:
  "fetch_and_analyze lib DownloadRaises = [PyNone, PyStr msg_fetch_failed] \<and>
   fetch_and_analyze lib (Downloaded []) = [PyNone, PyStr msg_no_data] \<and>
   (\<forall>raw. raw \<noteq> [] \<longrightarrow>
      (\<exists>df quant_trend quant_desc.
         fetch_and_analyze lib (Downloaded raw) = [PyFrame df, PyStr quant_trend, PyStr quant_desc] \<and>
         unpack3 (fetch_and_analyze lib (Downloaded raw)) =
           Inr (PyFrame df, PyStr quant_trend, PyStr quant_desc))) \<and>
   (\<forall>dl net now symbol.
      dl = DownloadRaises \<or> dl = Downloaded [] \<longrightarrow>
      length (fetch_and_analyze lib dl) = 2 \<and>
      unpack3 (fetch_and_analyze lib dl) = Inl ValueError \<and>
      main_report lib dl net now symbol = Raised ValueError \<and>
      main_report lib dl net now symbol \<noteq> RetryPrompt)"
proof -
  have a: "fetch_and_analyze lib DownloadRaises = [PyNone, PyStr msg_fetch_failed]"
    by (simp add: fetch_and_analyze_def)
  have b: "fetch_and_analyze lib (Downloaded []) = [PyNone, PyStr msg_no_data]"
    by (simp add: fetch_and_analyze_def)
  have c: "\<exists>df quant_trend quant_desc.
         fetch_and_analyze lib (Downloaded raw) = [PyFrame df, PyStr quant_trend, PyStr quant_desc] \<and>
         unpack3 (fetch_and_analyze lib (Downloaded raw)) =
           Inr (PyFrame df, PyStr quant_trend, PyStr quant_desc)"
    if "raw \<noteq> []" for raw
    using fetch_and_analyze_shape[OF that, of lib] by auto
  have d: "length (fetch_and_analyze lib dl) = 2 \<and>
      unpack3 (fetch_and_analyze lib dl) = Inl ValueError \<and>
      main_report lib dl net now symbol = Raised ValueError \<and>
      main_report lib dl net now symbol \<noteq> RetryPrompt"
    if "dl = DownloadRaises \<or> dl = Downloaded []" for dl net now symbol
    using that main_report_failure[OF that, of lib net now symbol] a b by auto
  from a b c d show ?thesis by blast
qed

theorem failure_tuple_arity_witness:
  "constant_series \<noteq> [] \<and>
   (\<exists>df quant_trend quant_desc.
      fetch_and_analyze exact_rolling_mean (Downloaded constant_series) =
        [PyFrame df, PyStr quant_trend, PyStr quant_desc]) \<and>
   length (fetch_and_analyze exact_rolling_mean (Downloaded [])) = 2 \<and>
   unpack3 (fetch_and_analyze exact_rolling_mean (Downloaded [])) = Inl ValueError \<and>
   main_report exact_rolling_mean (Downloaded []) Unreachable ''2026-01-01 00:00:00'' ''0050.TW'' =
     Raised ValueError \<and>
   main_report exact_rolling_mean DownloadRaises Reached ''2026-01-01 00:00:00'' ''0050.TW'' = Raised ValueError"
proof -
  have h: "constant_series \<noteq> []" by code_simp
  have f1: "Downloaded [] = DownloadRaises \<or> Downloaded [] = Downloaded []" by simp
  have f2: "DownloadRaises = DownloadRaises \<or> DownloadRaises = Downloaded []" by simp
  from failure_tuple_arity[of exact_rolling_mean] h f1 f2 show ?thesis by blast
qed

section \<open>The claim on the order of the rows\<close>

text \<open>
  C9, as amended. The price fetch neither sorts the rows nor drops duplicate dates: the
  frame it returns has the dates, the closes and the other entries of the raw response,
  row by row in the same order. Its dates are therefore strictly ascending (unique and sorted) exactly when
  those of the raw response are.
\<close>

theorem fetch_keeps_rows:
  assumes "raw \<noteq> []"
  shows "\<exists>df quant_trend quant_desc.
           fetch_and_analyze lib (Downloaded raw) = [PyFrame df, PyStr quant_trend, PyStr quant_desc] \<and>
           map Date df = map trade_date raw \<and>
           map Current_Price df = map Close raw \<and>
           map Other_Columns df = map other_columns raw \<and>
           frame_dates (fetch_and_analyze lib (Downloaded raw)) = map trade_date raw \<and>
           (sorted_wrt (<) (map Date df) \<longleftrightarrow> sorted_wrt (<) (map trade_date raw))"
proof -
  from fetch_and_analyze_shape[OF assms] obtain quant_trend quant_desc where
    "fetch_and_analyze lib (Downloaded raw) =
       [PyFrame (add_moving_averages lib raw), PyStr quant_trend, PyStr quant_desc]"
    by blast
  then show ?thesis
    by (simp add: map_Date_add_moving_averages map_Current_Price_add_moving_averages
        map_Other_Columns_add_moving_averages)
qed

theorem fetch_keeps_rows_witness:
  "shuffled_series \<noteq> [] \<and>
   (\<exists>df quant_trend quant_desc.
      fetch_and_analyze exact_rolling_mean (Downloaded shuffled_series) =
        [PyFrame df, PyStr quant_trend, PyStr quant_desc] \<and>
      map Date df = [3, 1, 3] \<and>
      map Current_Price df = [Some (Val 10), Some (Val 11), Some (Val 12)])"
proof -
  have h: "shuffled_series \<noteq> []" by (simp add: shuffled_series_def complete_row_def)
  have d: "map trade_date shuffled_series = [3, 1, 3]" by (simp add: shuffled_series_def complete_row_def)
  have c: "map Close shuffled_series = [Some (Val 10), Some (Val 11), Some (Val 12)]"
    by (simp add: shuffled_series_def complete_row_def)
  from fetch_keeps_rows[OF h, of exact_rolling_mean] obtain df quant_trend quant_desc where
    "fetch_and_analyze exact_rolling_mean (Downloaded shuffled_series) =
       [PyFrame df, PyStr quant_trend, PyStr quant_desc]"
    "map Date df = map trade_date shuffled_series"
    "map Current_Price df = map Close shuffled_series"
    by blast
  with h d c show ?thesis by auto
qed

text \<open>
  C9 as stated fails: a raw response with a repeated date and dates out of order comes
  back with the same dates, neither sorted nor unique.
\<close>

theorem fetch_keeps_rows_counterexample:
  "frame_dates (fetch_and_analyze exact_rolling_mean (Downloaded shuffled_series)) = [3, 1, 3] \<and>
   \<not> sorted (frame_dates (fetch_and_analyze exact_rolling_mean (Downloaded shuffled_series))) \<and>
   \<not> distinct (frame_dates (fetch_and_analyze exact_rolling_mean (Downloaded shuffled_series)))"
proof -
  have "shuffled_series \<noteq> []" by (simp add: shuffled_series_def complete_row_def)
  from fetch_and_analyze_shape[OF this] obtain quant_trend quant_desc where
    "fetch_and_analyze exact_rolling_mean (Downloaded shuffled_series) =
       [PyFrame (add_moving_averages exact_rolling_mean shuffled_series), PyStr quant_trend, PyStr quant_desc]"
    by blast
  then have "frame_dates (fetch_and_analyze exact_rolling_mean (Downloaded shuffled_series)) =
      map trade_date shuffled_series"
    by (simp add: map_Date_add_moving_averages)
  then show ?thesis by (simp add: shuffled_series_def complete_row_def)
qed

section \<open>The claims on the sentiment service\<close>

lemma upper_char_idem: "upper_char (upper_char c) = upper_char c"
proof -
  define n :: nat where "n = of_char c"
  show ?thesis
  proof (cases "97 \<le> n \<and> n \<le> 122")
    case True
    then have lo: "97 \<le> n" and hi: "n \<le> 122" by simp_all
    from lo hi show ?thesis
      by (auto simp: upper_char_def Let_def n_def [symmetric])
  next
    case False
    then have "upper_char c = c"
      by (auto simp: upper_char_def Let_def n_def [symmetric])
    then show ?thesis by simp
  qed
qed

lemma upper_idem: "upper (upper s) = upper s"
  by (simp add: upper_def upper_char_idem)

lemma get_ai_analysis_unknown:
  "MOCK_AI_DATABASE (upper symbol) = None \<Longrightarrow>
   get_ai_analysis now symbol =
     Inr \<lparr>ticker = upper symbol, timestamp = now, emotion = emotion_neutral,
          conclusion = conclusion_prefix @ upper symbol @ conclusion_suffix,
          positive_news = [], negative_news = []\<rparr>"
  by (simp add: get_ai_analysis_def Let_def)

lemma get_ai_analysis_known:
  "MOCK_AI_DATABASE (upper symbol) = Some data \<Longrightarrow>
   get_ai_analysis now symbol =
     Inr \<lparr>ticker = upper symbol, timestamp = now, emotion = entry_emotion data,
          conclusion = entry_conclusion data,
          positive_news = entry_positive_news data,
          negative_news = entry_negative_news data\<rparr>"
  by (simp add: get_ai_analysis_def Let_def)

lemma get_ai_analysis_returns:
  "\<exists>r. get_ai_analysis now symbol = Inr r \<and> ticker r = upper symbol \<and> timestamp r = now"
proof (cases "MOCK_AI_DATABASE (upper symbol)")
  case None
  from get_ai_analysis_unknown[OF None, of now] show ?thesis by simp
next
  case (Some data)
  from get_ai_analysis_known[OF Some, of now] show ?thesis by simp
qed

lemma match_route_param:
  assumes "symbol \<noteq> []" and "CHR ''/'' \<notin> set symbol"
  shows "match_route (route_prefix @ symbol) = Some symbol"
  using assms by (simp add: match_route_def)

text \<open>
  C6. For every symbol that is not present in the database (the handler tests the
  uppercased symbol for membership), the handler returns, without raising, a response
  with the neutral emotion, a conclusion that contains the uppercased symbol, and empty
  lists of positive and negative news.
\<close>

theorem unknown_symbol_neutral_fallback:
  assumes "upper symbol \<notin> dom MOCK_AI_DATABASE"
  shows "\<exists>r. get_ai_analysis now symbol = Inr r \<and>
             ticker r = upper symbol \<and>
             timestamp r = now \<and>
             emotion r = emotion_neutral \<and>
             conclusion r = conclusion_prefix @ upper symbol @ conclusion_suffix \<and>
             (\<exists>before after. conclusion r = before @ upper symbol @ after) \<and>
             positive_news r = [] \<and>
             negative_news r = []"
proof -
  from assms have "MOCK_AI_DATABASE (upper symbol) = None" by (simp add: domIff)
  from get_ai_analysis_unknown[OF this, of now] show ?thesis
    by (intro exI conjI) (assumption, simp_all)
qed

theorem unknown_symbol_neutral_fallback_witness:
  "upper ''9999.xx'' \<notin> dom MOCK_AI_DATABASE \<and>
   upper ''9999.xx'' = ''9999.XX'' \<and>
   (\<exists>r. get_ai_analysis ''2026-01-01 00:00:00'' ''9999.xx'' = Inr r \<and>
        ticker r = ''9999.XX'' \<and>
        emotion r = emotion_neutral \<and>
        conclusion r = conclusion_prefix @ ''9999.XX'' @ conclusion_suffix \<and>
        positive_news r = [] \<and>
        negative_news r = [])"
proof -
  have "MOCK_AI_DATABASE (upper ''9999.xx'') = None" by code_simp
  then have h: "upper ''9999.xx'' \<notin> dom MOCK_AI_DATABASE" by (simp only: domIff not_not)
  have u: "upper ''9999.xx'' = ''9999.XX''" by code_simp
  from unknown_symbol_neutral_fallback[OF h, of "''2026-01-01 00:00:00''"] h
  show ?thesis by (auto simp: u)
qed

text \<open>
  C7. The handler looks the symbol up in its uppercase form: for every input \<open>t\<close>, the
  response for \<open>t\<close> and the response for \<open>upper t\<close> (whenever each is asked) agree on
  every field other than the timestamp, and the ticker of the response is \<open>upper t\<close>.
\<close>

theorem lookup_normalizes_to_uppercase:
  "\<exists>r r'. get_ai_analysis now t = Inr r \<and>
          get_ai_analysis now' (upper t) = Inr r' \<and>
          ticker r = upper t \<and>
          ticker r' = ticker r \<and>
          emotion r' = emotion r \<and>
          conclusion r' = conclusion r \<and>
          positive_news r' = positive_news r \<and>
          negative_news r' = negative_news r"
proof (cases "MOCK_AI_DATABASE (upper t)")
  case None
  then have "MOCK_AI_DATABASE (upper (upper t)) = None" by (simp add: upper_idem)
  from get_ai_analysis_unknown[OF None, of now] get_ai_analysis_unknown[OF this, of now']
  show ?thesis by (simp add: upper_idem)
next
  case (Some data)
  then have "MOCK_AI_DATABASE (upper (upper t)) = Some data" by (simp add: upper_idem)
  from get_ai_analysis_known[OF Some, of now] get_ai_analysis_known[OF this, of now']
  show ?thesis by (simp add: upper_idem)
qed

text \<open>
  C8, as amended. The service answers \<open>GET /api/analyze/{ticker}\<close>: for every path
  parameter (a non-empty segment) the status is 200 and the body is a JSON object with
  exactly the members \<open>ticker\<close>, \<open>timestamp\<close>, \<open>emotion\<close>, \<open>conclusion\<close>, \<open>positive_news\<close> and
  \<open>negative_news\<close>, the first four strings and the last two lists of strings; for a
  symbol without an entry it is the neutral fallback.
\<close>

theorem analyze_route_response:
  assumes "symbol \<noteq> []" and "CHR ''/'' \<notin> set symbol"
  shows "\<exists>r. app_get now (''/api/analyze/'' @ symbol) = Ok200 r \<and>
             status_code (app_get now (''/api/analyze/'' @ symbol)) = 200 \<and>
             json_body (app_get now (''/api/analyze/'' @ symbol)) =
               [(''ticker'', JString (upper symbol)),
                (''timestamp'', JString now),
                (''emotion'', JString (emotion r)),
                (''conclusion'', JString (conclusion r)),
                (''positive_news'', JArray (map JString (positive_news r))),
                (''negative_news'', JArray (map JString (negative_news r)))] \<and>
             (MOCK_AI_DATABASE (upper symbol) = None \<longrightarrow>
                emotion r = emotion_neutral \<and>
                conclusion r = conclusion_prefix @ upper symbol @ conclusion_suffix \<and>
                positive_news r = [] \<and> negative_news r = [])"
proof -
  have path: "''/api/analyze/'' @ symbol = route_prefix @ symbol"
    by (simp add: route_prefix_def)
  from get_ai_analysis_returns[of now symbol] obtain r where
    r: "get_ai_analysis now symbol = Inr r" "ticker r = upper symbol" "timestamp r = now"
    by blast
  have ok: "app_get now (''/api/analyze/'' @ symbol) = Ok200 r"
    unfolding path by (simp add: app_get_def match_route_param[OF assms] r(1))
  have fallback: "emotion r = emotion_neutral \<and>
      conclusion r = conclusion_prefix @ upper symbol @ conclusion_suffix \<and>
      positive_news r = [] \<and> negative_news r = []"
    if "MOCK_AI_DATABASE (upper symbol) = None"
    using get_ai_analysis_unknown[OF that, of now] r(1) by auto
  have body: "json_body (Ok200 r) =
      [(''ticker'', JString (upper symbol)),
       (''timestamp'', JString now),
       (''emotion'', JString (emotion r)),
       (''conclusion'', JString (conclusion r)),
       (''positive_news'', JArray (map JString (positive_news r))),
       (''negative_news'', JArray (map JString (negative_news r)))]"
    by (simp add: response_json_def r(2,3))
  have status: "status_code (Ok200 r) = 200" by simp
  show ?thesis
  proof (intro exI[of _ r] conjI impI)
    show "app_get now (''/api/analyze/'' @ symbol) = Ok200 r" by (rule ok)
    show "status_code (app_get now (''/api/analyze/'' @ symbol)) = 200"
      by (simp only: ok status)
    show "json_body (app_get now (''/api/analyze/'' @ symbol)) =
      [(''ticker'', JString (upper symbol)),
       (''timestamp'', JString now),
       (''emotion'', JString (emotion r)),
       (''conclusion'', JString (conclusion r)),
       (''positive_news'', JArray (map JString (positive_news r))),
       (''negative_news'', JArray (map JString (negative_news r)))]"
      by (simp only: ok body)
  qed (use fallback in blast)+
qed

theorem analyze_route_response_witness:
  "''9999.XX'' \<noteq> [] \<and> CHR ''/'' \<notin> set ''9999.XX'' \<and>
   MOCK_AI_DATABASE (upper ''9999.XX'') = None \<and>
   status_code (app_get ''2026-01-01 00:00:00'' ''/api/analyze/9999.XX'') = 200 \<and>
   json_body (app_get ''2026-01-01 00:00:00'' ''/api/analyze/9999.XX'') =
     [(''ticker'', JString ''9999.XX''),
      (''timestamp'', JString ''2026-01-01 00:00:00''),
      (''emotion'', JString emotion_neutral),
      (''conclusion'', JString (conclusion_prefix @ ''9999.XX'' @ conclusion_suffix)),
      (''positive_news'', JArray []),
      (''negative_news'', JArray [])]"
proof -
  have h1: "''9999.XX'' \<noteq> []" by simp
  have h2: "CHR ''/'' \<notin> set ''9999.XX''" by simp
  have h3: "MOCK_AI_DATABASE (upper ''9999.XX'') = None" by code_simp
  have u: "upper ''9999.XX'' = ''9999.XX''" by code_simp
  from analyze_route_response[OF h1 h2, of "''2026-01-01 00:00:00''"] h3 h1 h2
  show ?thesis by (auto simp: u)
qed

text \<open>
  C8 as stated fails: a request for \<open>/analyze/2330.TW\<close> is answered with 404, and the
  body that the service sends for \<open>/api/analyze/2330.TW\<close> has a member \<open>ticker\<close> and no
  member \<open>symbol\<close>.
\<close>

theorem analyze_route_counterexample:
  "app_get ''2026-01-01 00:00:00'' ''/analyze/2330.TW'' = NotFound404 \<and>
   status_code (app_get ''2026-01-01 00:00:00'' ''/analyze/2330.TW'') = 404 \<and>
   status_code (app_get ''2026-01-01 00:00:00'' ''/api/analyze/2330.TW'') = 200 \<and>
   map fst (json_body (app_get ''2026-01-01 00:00:00'' ''/api/analyze/2330.TW'')) =
     [''ticker'', ''timestamp'', ''emotion'', ''conclusion'', ''positive_news'',
      ''negative_news''] \<and>
   ''symbol'' \<notin> set (map fst (json_body (app_get ''2026-01-01 00:00:00'' ''/api/analyze/2330.TW'')))"
  by code_simp

end
